theory Spec2Isabelle
  imports Main "HOL-Library.Sublist" "HOL-Library.Word"
begin

section \<open>Python strings\<close>

text \<open>
  A Python \<open>str\<close> is a sequence of Unicode code points, so it is modelled as a list
  of natural numbers. The string methods the handler uses (\<open>replace\<close>, \<open>split\<close>,
  \<open>strip\<close>, the operator \<open>in\<close>) are written out below as Python defines them.
\<close>

type_synonym pystr = "nat list"

text \<open>
  String literals of the source. An Isabelle string literal can hold neither a backslash nor
  a letter outside ASCII, so the literals of \<open>App.py\<close> are written with \<open>|\<close> for the
  backslash and with \<open>~a\<close>, \<open>~e\<close>, \<open>~i\<close>, \<open>~o\<close> for the accented letters
  U+00E1, U+00E9, U+00ED, U+00F3. Neither \<open>|\<close> nor \<open>~\<close> occurs in a literal of the source.
  Every other character stands for its own code point.
\<close>

definition plain :: "char \<Rightarrow> nat" where
  "plain c = (if c = CHR ''|'' then 92 else of_char c)"

definition accented :: "char \<Rightarrow> nat" where
  "accented c =
     (if c = CHR ''a'' then 225
      else if c = CHR ''e'' then 233
      else if c = CHR ''i'' then 237
      else if c = CHR ''o'' then 243
      else of_char c)"

fun lit :: "string \<Rightarrow> pystr" where
  "lit [] = []"
| "lit [c] = [plain c]"
| "lit (c # d # cs) =
     (if c = CHR ''~'' then accented d # lit cs else plain c # lit (d # cs))"

text \<open>A literal stays folded unless a proof asks for its code points.\<close>

declare lit.simps [simp del]

text \<open>
  \<open>s.replace(old, new)\<close>: the occurrences of \<open>old\<close> are found from left to right and do
  not overlap. With an empty \<open>old\<close>, Python puts \<open>new\<close> before every character and at
  the end.
\<close>

function replace_from :: "'a list \<Rightarrow> 'a list \<Rightarrow> 'a list \<Rightarrow> 'a list" where
  "replace_from old new [] = []"
| "replace_from old new (c # cs) =
     (if old \<noteq> [] \<and> prefix old (c # cs)
      then new @ replace_from old new (drop (length old) (c # cs))
      else c # replace_from old new cs)"
  by pat_completeness auto
termination
  by (relation "measure (\<lambda>(old, new, s). length s)") (auto simp: neq_Nil_conv)

definition py_replace :: "'a list \<Rightarrow> 'a list \<Rightarrow> 'a list \<Rightarrow> 'a list" where
  "py_replace old new s =
     (if old = [] then new @ concat (map (\<lambda>c. c # new) s) else replace_from old new s)"

text \<open>\<open>s.split(sep)\<close> for a separator of one character: never an empty list.\<close>

fun py_split :: "'a \<Rightarrow> 'a list \<Rightarrow> 'a list list" where
  "py_split sep [] = [[]]"
| "py_split sep (c # cs) =
     (if c = sep then [] # py_split sep cs
      else (case py_split sep cs of
              [] \<Rightarrow> [[c]]
            | t # ts \<Rightarrow> (c # t) # ts))"

text \<open>
  \<open>s.strip()\<close> removes the leading and trailing characters that \<open>str.isspace\<close> accepts.
\<close>

definition isspace :: "nat \<Rightarrow> bool" where
  "isspace c \<longleftrightarrow>
     c \<in> {0x09, 0x0A, 0x0B, 0x0C, 0x0D, 0x1C, 0x1D, 0x1E, 0x1F, 0x20, 0x85, 0xA0,
          0x1680, 0x2000, 0x2001, 0x2002, 0x2003, 0x2004, 0x2005, 0x2006, 0x2007,
          0x2008, 0x2009, 0x200A, 0x2028, 0x2029, 0x202F, 0x205F, 0x3000}"

definition strip :: "pystr \<Rightarrow> pystr" where
  "strip s = rev (dropWhile isspace (rev (dropWhile isspace s)))"

text \<open>\<open>sub in s\<close>: \<open>sub\<close> occurs in \<open>s\<close> as a contiguous substring.\<close>

fun contains :: "'a list \<Rightarrow> 'a list \<Rightarrow> bool" where
  "contains sub [] = (sub = [])"
| "contains sub (c # cs) = (prefix sub (c # cs) \<or> contains sub cs)"

section \<open>The explanation steps\<close>

text \<open>
  The display form used throughout the handler:
  \<open>.replace('**', '^').replace('*', '\\,')\<close>.
\<close>

definition latex :: "pystr \<Rightarrow> pystr" where
  "latex s = py_replace (lit ''*'') (lit ''|,'') (py_replace (lit ''**'') (lit ''^'') s)"

text \<open>Lines 74 to 81: the terms of the raw text and the first numbered step.\<close>

definition terms_of :: "pystr \<Rightarrow> pystr list" where
  "terms_of expression = py_split (plain CHR ''+'') expression"

definition decompose_steps :: "pystr \<Rightarrow> pystr list" where
  "decompose_steps expression =
     (if length (terms_of expression) > 1
      then lit ''1. Descomponer la integral en t~erminos:'' #
           map (\<lambda>term. lit ''   |( |int '' @ latex (strip term) @ lit '' |, dx |)'')
               (terms_of expression)
      else [lit ''1. Resolver la integral directamente para |( |int '' @
            latex expression @ lit '' |, dx |)''])"

text \<open>Lines 85 to 120: the two steps of one term, already stripped.\<close>

definition rule_steps :: "pystr \<Rightarrow> pystr list" where
  "rule_steps term =
     (if contains (lit ''sin'') term \<or> contains (lit ''cos'') term \<or> contains (lit ''tan'') term
      then (lit ''2. Aplicar la regla de integraci~on trigonom~etrica a |( '' @
              latex term @ lit '' |):'') #
           (if contains (lit ''sin'') term
              then [lit ''   |( |int |sin(x) |, dx = -|cos(x) |)'']
            else if contains (lit ''cos'') term
              then [lit ''   |( |int |cos(x) |, dx = |sin(x) |)'']
            else if contains (lit ''tan'') term
              then [lit ''   |( |int |tan(x) |, dx = |ln(|cos(x)) |)'']
            else [])
      else if contains (lit ''log'') term \<or> contains (lit ''ln'') term
      then [lit ''2. Aplicar la integraci~on por partes a |( '' @ latex term @ lit '' |):'',
            lit ''   |( |int |ln(x) |, dx = x |ln(x) - x + C |)'']
      else if contains (lit ''exp'') term \<or> contains (lit ''e^'') term
      then [lit ''2. Aplicar la regla de integraci~on exponencial a |( '' @
              latex term @ lit '' |):'',
            lit ''   |( |int e^x |, dx = e^x |)'']
      else if contains (lit ''x**'') term
      then [lit ''2. Aplicar la regla de integraci~on de potencias a |( '' @
              latex term @ lit '' |):'',
            lit ''   |( |int x^n |, dx = |frac{x^{n+1}}{n+1} |)'']
      else if contains (lit ''x'') term
      then [lit ''2. Aplicar la regla de integraci~on lineal a |( '' @
              latex term @ lit '' |):'',
            lit ''   |( |int ax |, dx = |frac{ax^2}{2} |)'']
      else [lit ''2. Aplicar la regla para constantes a |( '' @ latex term @ lit '' |):'',
            lit ''   |( |int a |, dx = ax |)''])"

text \<open>
  Lines 68 to 124: the list \<open>steps\<close> as it stands after step 3. The second argument is
  \<open>str(integrated_function)\<close>.
\<close>

definition explanation_steps :: "pystr \<Rightarrow> pystr \<Rightarrow> pystr list" where
  "explanation_steps expression integrated =
     [lit ''Problema: |( |int '' @ latex expression @ lit '' |, dx |)''] @
     decompose_steps expression @
     concat (map (\<lambda>term. rule_steps (strip term)) (terms_of expression)) @
     [lit ''3. Sumar los resultados parciales:'',
      lit ''   Resultado final: |( '' @ latex integrated @ lit '' + C |)'']"

section \<open>Requests, responses and the process-wide graph\<close>

text \<open>
  \<open>IntegralRequest\<close>: the two limits default to \<open>None\<close>. The type \<open>'f\<close> stands for
  Python's \<open>float\<close>, which the handler only passes on.
\<close>

record 'f IntegralRequest =
  expression :: pystr
  lower_limit :: "'f option"
  upper_limit :: "'f option"

text \<open>
  The handlers return dictionaries whose values are strings or lists of strings. A
  dictionary is an association list in insertion order, looked up with \<open>map_of\<close>.
\<close>

datatype json = JStr pystr | JList "pystr list"

type_synonym dict = "(string \<times> json) list"

text \<open>
  A call of \<open>calculate_integral\<close> either returns a dictionary or lets an exception
  escape, which the argument of \<open>Raised\<close> describes.
\<close>

datatype outcome = Returned dict | Raised pystr

text \<open>
  \<open>io.BytesIO\<close>: the bytes written so far and the position of the next read or write.
  The global \<open>graph_buffer\<close> is \<open>None\<close> or such an object.
\<close>

type_synonym byte = "8 word"

record BytesIO =
  content :: "byte list"
  cursor :: nat

type_synonym graph_state = "BytesIO option"

text \<open>What \<open>get_graph\<close> gives back: a dictionary, or a streamed body with its media type.\<close>

datatype reply = JSONResponse dict | StreamingResponse "byte list" string

section \<open>The libraries the handler calls\<close>

text \<open>
  sympy, numpy and matplotlib are not part of the repository, so their functions are
  parameters of the model. A call that may raise returns a sum: \<open>Inl\<close> carries
  \<open>str(e)\<close> of the exception, \<open>Inr\<close> the value.
  \<^item> \<open>'e\<close>: symbolic expressions; \<open>'f\<close>: floats; \<open>'fn\<close>: the callables made by
    \<open>lambdify\<close>; \<open>'v\<close>: what such a callable returns on \<open>X_vals\<close>; \<open>'fig\<close>: the
    figure drawn by the \<open>plt\<close> calls of lines 161 to 170.
  \<^item> \<open>integrate\<close> is \<open>integrate(f, x)\<close>, \<open>integrate_between\<close> is
    \<open>integrate(f, (x, a, b))\<close>.
  \<^item> \<open>str_expr\<close> is \<open>str\<close> of an expression (lines 124, 165, 180, 181);
    \<open>format_expr\<close> is its interpolation in an f-string (line 132), which goes through
    \<open>format\<close> and need not print a float as \<open>str\<close> does; \<open>str_float\<close> is the
    interpolation of a Python float (lines 131, 132).
  \<^item> \<open>call\<close> applies a callable to \<open>X_vals = np.linspace(-10, 10, 400)\<close>; \<open>len\<close>
    is Python's \<open>len\<close> on the result.
  \<^item> \<open>plot\<close> takes the two value arrays and the two legend labels.
  \<^item> \<open>savefig\<close> gives the bytes it wrote into the buffer and, when it raised, the
    exception.
\<close>

record ('e, 'f, 'fn, 'v, 'fig) library =
  sympify :: "pystr \<Rightarrow> pystr + 'e"
  integrate :: "'e \<Rightarrow> pystr + 'e"
  integrate_between :: "'e \<Rightarrow> 'f \<Rightarrow> 'f \<Rightarrow> pystr + 'e"
  str_expr :: "'e \<Rightarrow> pystr"
  format_expr :: "'e \<Rightarrow> pystr"
  str_float :: "'f \<Rightarrow> pystr"
  lambdify :: "'e \<Rightarrow> pystr + 'fn"
  call :: "'fn \<Rightarrow> pystr + 'v"
  len :: "'v \<Rightarrow> pystr + nat"
  plot :: "'v \<Rightarrow> 'v \<Rightarrow> pystr \<Rightarrow> pystr \<Rightarrow> pystr + 'fig"
  savefig :: "'fig \<Rightarrow> byte list \<times> pystr option"

section \<open>POST /calculate-integral\<close>

text \<open>Line 59: the text handed to \<open>sympify\<close>.\<close>

definition parser_input :: "pystr \<Rightarrow> pystr" where
  "parser_input text = py_replace (lit ''e**'') (lit ''exp'') text"

text \<open>
  Lines 127 to 137. \<open>Inl\<close> is the dictionary returned from the \<open>except\<close> branch;
  \<open>Inr\<close> is \<open>defined_integral\<close> together with the list \<open>steps\<close>.
\<close>

definition definite_stage ::
  "('e, 'f, 'fn, 'v, 'fig) library \<Rightarrow> 'f IntegralRequest \<Rightarrow> 'e \<Rightarrow> pystr list \<Rightarrow>
   dict + ('e option \<times> pystr list)" where
  "definite_stage L request original_function steps =
     (case lower_limit request of
        None \<Rightarrow> Inr (None, steps)
      | Some a \<Rightarrow>
     (case upper_limit request of
        None \<Rightarrow> Inr (None, steps)
      | Some b \<Rightarrow>
     (case integrate_between L original_function a b of
        Inl e \<Rightarrow> Inl [(''error'', JStr (lit ''Error al calcular la integral definida: '' @ e))]
      | Inr defined_integral \<Rightarrow>
          Inr (Some defined_integral,
               steps @
               [lit ''4. Valor de la integral definida con l~imites |( '' @ str_float L a @
                  lit '' |) y |( '' @ str_float L b @ lit '' |):'',
                lit ''   |( |int_{'' @ str_float L a @ lit ''}^{'' @ str_float L b @ lit ''} '' @
                  latex (expression request) @ lit '' |, dx = '' @
                  format_expr L defined_integral @ lit '' |)'']))))"

text \<open>
  Lines 147 to 158: the body of the second \<open>try\<close>. \<open>Inl\<close> is \<open>str(e)\<close> of the exception
  caught, \<open>Inr\<close> the two value arrays. \<open>len(X_vals)\<close> is 400.
\<close>

definition len_X_vals :: nat where
  "len_X_vals = 400"

definition dimension_error :: pystr where
  "dimension_error = lit ''La dimensi~on de X_vals no coincide con la de Y_vals.''"

definition evaluate_stage ::
  "('e, 'f, 'fn, 'v, 'fig) library \<Rightarrow> 'fn \<Rightarrow> 'fn \<Rightarrow> pystr + ('v \<times> 'v)" where
  "evaluate_stage L original_function_np integrated_function_np =
     (case call L original_function_np of
        Inl e \<Rightarrow> Inl e
      | Inr original_Y_vals \<Rightarrow>
     (case call L integrated_function_np of
        Inl e \<Rightarrow> Inl e
      | Inr integrated_Y_vals \<Rightarrow>
     (case len L original_Y_vals of
        Inl e \<Rightarrow> Inl e
      | Inr n \<Rightarrow>
          if n \<noteq> len_X_vals then Inl dimension_error
          else
     (case len L integrated_Y_vals of
        Inl e \<Rightarrow> Inl e
      | Inr m \<Rightarrow>
          if m \<noteq> len_X_vals then Inl dimension_error
          else Inr (original_Y_vals, integrated_Y_vals)))))"

text \<open>The legend labels of lines 163 and 165.\<close>

definition legend :: "pystr \<Rightarrow> pystr" where
  "legend s = py_replace (lit ''*'') (lit '' '') (py_replace (lit ''**'') (lit ''^'') s)"

text \<open>
  Lines 173 to 183, once the figure is drawn. The global is bound to a fresh buffer before
  \<open>savefig\<close> runs; \<open>seek(0)\<close> is reached only when \<open>savefig\<close> returns, otherwise the
  cursor stays behind the bytes written. \<open>plt.close()\<close> has no part in the response or the
  buffer and is left out.
\<close>

definition store_and_return ::
  "('e, 'f, 'fn, 'v, 'fig) library \<Rightarrow> 'fig \<Rightarrow> 'e \<Rightarrow> 'e option \<Rightarrow> pystr list \<Rightarrow>
   outcome \<times> graph_state" where
  "store_and_return L fig integrated_function defined_integral steps =
     (case savefig L fig of
        (written, Some e) \<Rightarrow>
          (Raised e, Some \<lparr>content = written, cursor = length written\<rparr>)
      | (written, None) \<Rightarrow>
          (Returned
             [(''indefinite_integral'', JStr (latex (str_expr L integrated_function))),
              (''defined_integral'',
                 JStr (case defined_integral of
                         Some d \<Rightarrow> str_expr L d
                       | None \<Rightarrow> lit ''No se proporcionaron l~imites'')),
              (''explanation'', JList steps)],
           Some \<lparr>content = written, cursor = 0\<rparr>))"

text \<open>
  The handler, lines 50 to 183. It takes the value of the global \<open>graph_buffer\<close> and gives
  back its value after the call.
\<close>

definition calculate_integral ::
  "('e, 'f, 'fn, 'v, 'fig) library \<Rightarrow> 'f IntegralRequest \<Rightarrow> graph_state \<Rightarrow>
   outcome \<times> graph_state" where
  "calculate_integral L request graph_buffer =
     (case sympify L (parser_input (expression request)) of
        Inl e \<Rightarrow>
          (Returned
             [(''error'', JStr (lit ''Error en la expresi~on matem~atica proporcionada.''))],
           graph_buffer)
      | Inr original_function \<Rightarrow>
     (case integrate L original_function of
        Inl e \<Rightarrow> (Raised e, graph_buffer)
      | Inr integrated_function \<Rightarrow>
     (case definite_stage L request original_function
             (explanation_steps (expression request) (str_expr L integrated_function)) of
        Inl error \<Rightarrow> (Returned error, graph_buffer)
      | Inr (defined_integral, steps) \<Rightarrow>
     (case lambdify L original_function of
        Inl e \<Rightarrow> (Raised e, graph_buffer)
      | Inr original_function_np \<Rightarrow>
     (case lambdify L integrated_function of
        Inl e \<Rightarrow> (Raised e, graph_buffer)
      | Inr integrated_function_np \<Rightarrow>
     (case evaluate_stage L original_function_np integrated_function_np of
        Inl e \<Rightarrow>
          (Returned [(''error'', JStr (lit ''Error al evaluar la funci~on: '' @ e))],
           graph_buffer)
      | Inr (original_Y_vals, integrated_Y_vals) \<Rightarrow>
     (case plot L original_Y_vals integrated_Y_vals
             (lit ''Original: '' @ legend (expression request))
             (lit ''Integral: '' @ legend (str_expr L integrated_function)) of
        Inl e \<Rightarrow> (Raised e, graph_buffer)
      | Inr fig \<Rightarrow>
          store_and_return L fig integrated_function defined_integral steps)))))))"

section \<open>GET /get-graph\<close>

text \<open>
  Lines 187 to 193. A \<open>BytesIO\<close> object is true whatever it holds, so the test
  \<open>if graph_buffer\<close> only asks whether the global is \<open>None\<close>. The server sends the
  \<open>StreamingResponse\<close> by iterating the buffer object itself: it reads from the cursor to
  the end, and the cursor of the shared object stays at the end afterwards.
\<close>

definition get_graph :: "graph_state \<Rightarrow> reply \<times> graph_state" where
  "get_graph graph_buffer =
     (case graph_buffer of
        Some buffer \<Rightarrow>
          (StreamingResponse (drop (cursor buffer) (content buffer)) ''image/png'',
           Some (buffer\<lparr>cursor := max (cursor buffer) (length (content buffer))\<rparr>))
      | None \<Rightarrow> (JSONResponse [(''error'', JStr (lit ''No hay gr~afica generada.''))], None))"

text \<open>The eight bytes every PNG file starts with.\<close>

definition png_signature :: "byte list" where
  "png_signature = [0x89, 0x50, 0x4E, 0x47, 0x0D, 0x0A, 0x1A, 0x0A]"

section \<open>Several calls in a row\<close>

text \<open>
  The integration requests a process has served, oldest first: every call starts from the
  graph the call before left. \<open>error_object\<close> holds of a call that returned a dictionary
  with the key \<open>error\<close>.
\<close>

fun handle_all ::
  "('e, 'f, 'fn, 'v, 'fig) library \<Rightarrow> 'f IntegralRequest list \<Rightarrow> graph_state \<Rightarrow>
   outcome list \<times> graph_state" where
  "handle_all L [] graph_buffer = ([], graph_buffer)"
| "handle_all L (request # requests) graph_buffer =
     (case calculate_integral L request graph_buffer of
        (out, graph_buffer') \<Rightarrow>
          (case handle_all L requests graph_buffer' of
             (outs, graph_buffer'') \<Rightarrow> (out # outs, graph_buffer'')))"

fun error_object :: "outcome \<Rightarrow> bool" where
  "error_object (Returned body) = (map_of body ''error'' \<noteq> None)"
| "error_object (Raised e) = False"

section \<open>The classification as the specification words it\<close>

text \<open>
  The specification describes the steps of a term as a classification into one rule, by
  precedence, followed by the caption and the canned fact of that rule. These definitions
  follow that wording; \<open>rule_steps\<close> and \<open>explanation_steps\<close> above follow the code.
\<close>

datatype rule =
  Sine | Cosine | Tangent | Logarithm | Exponential | Power | Linear | Constant

definition spec_classify :: "pystr \<Rightarrow> rule" where
  "spec_classify term =
     (if contains (lit ''sin'') term then Sine
      else if contains (lit ''cos'') term then Cosine
      else if contains (lit ''tan'') term then Tangent
      else if contains (lit ''log'') term \<or> contains (lit ''ln'') term then Logarithm
      else if contains (lit ''exp'') term \<or> contains (lit ''e^'') term then Exponential
      else if contains (lit ''x**'') term then Power
      else if contains (lit ''x'') term then Linear
      else Constant)"

fun spec_caption :: "rule \<Rightarrow> pystr" where
  "spec_caption Sine = lit ''la regla de integraci~on trigonom~etrica''"
| "spec_caption Cosine = lit ''la regla de integraci~on trigonom~etrica''"
| "spec_caption Tangent = lit ''la regla de integraci~on trigonom~etrica''"
| "spec_caption Logarithm = lit ''la integraci~on por partes''"
| "spec_caption Exponential = lit ''la regla de integraci~on exponencial''"
| "spec_caption Power = lit ''la regla de integraci~on de potencias''"
| "spec_caption Linear = lit ''la regla de integraci~on lineal''"
| "spec_caption Constant = lit ''la regla para constantes''"

fun spec_fact :: "rule \<Rightarrow> pystr" where
  "spec_fact Sine = lit ''   |( |int |sin(x) |, dx = -|cos(x) |)''"
| "spec_fact Cosine = lit ''   |( |int |cos(x) |, dx = |sin(x) |)''"
| "spec_fact Tangent = lit ''   |( |int |tan(x) |, dx = |ln(|cos(x)) |)''"
| "spec_fact Logarithm = lit ''   |( |int |ln(x) |, dx = x |ln(x) - x + C |)''"
| "spec_fact Exponential = lit ''   |( |int e^x |, dx = e^x |)''"
| "spec_fact Power = lit ''   |( |int x^n |, dx = |frac{x^{n+1}}{n+1} |)''"
| "spec_fact Linear = lit ''   |( |int ax |, dx = |frac{ax^2}{2} |)''"
| "spec_fact Constant = lit ''   |( |int a |, dx = ax |)''"

text \<open>
  The display form in one pass over the text: a pair \<open>**\<close> becomes \<open>^\<close>, any other
  \<open>*\<close> becomes a backslash and a comma, every other character is kept.
\<close>

fun spec_display :: "pystr \<Rightarrow> pystr" where
  "spec_display [] = []"
| "spec_display [c] = (if c = of_char CHR ''*'' then [92, of_char CHR '',''] else [c])"
| "spec_display (c # d # cs) =
     (if c = of_char CHR ''*'' \<and> d = of_char CHR ''*''
        then of_char CHR ''^'' # spec_display cs
      else if c = of_char CHR ''*''
        then 92 # of_char CHR '','' # spec_display (d # cs)
      else c # spec_display (d # cs))"

definition spec_rule_steps :: "pystr \<Rightarrow> pystr list" where
  "spec_rule_steps term =
     [lit ''2. Aplicar '' @ spec_caption (spec_classify term) @ lit '' a |( '' @
        spec_display term @ lit '' |):'',
      spec_fact (spec_classify term)]"

definition spec_explanation :: "pystr \<Rightarrow> pystr \<Rightarrow> pystr list" where
  "spec_explanation text integrated =
     [lit ''Problema: |( |int '' @ spec_display text @ lit '' |, dx |)''] @
     (if contains (lit ''+'') text
      then lit ''1. Descomponer la integral en t~erminos:'' #
           map (\<lambda>term. lit ''   |( |int '' @ spec_display (strip term) @ lit '' |, dx |)'')
               (py_split (of_char CHR ''+'') text)
      else [lit ''1. Resolver la integral directamente para |( |int '' @
            spec_display text @ lit '' |, dx |)'']) @
     concat (map (\<lambda>term. spec_rule_steps (strip term)) (py_split (of_char CHR ''+'') text)) @
     [lit ''3. Sumar los resultados parciales:'',
      lit ''   Resultado final: |( '' @ spec_display integrated @ lit '' + C |)'']"

section \<open>Library answers for the examples\<close>

text \<open>
  A table of library answers for the inputs used as examples below. An expression is kept
  as the text sympy prints for it (for a parsed request, the text that was parsed); the
  floats are 0.0, 1.0 and nan. \<open>x+*\<close> does not parse. The antiderivatives are those
  sympy prints: \<open>x**3/3\<close>, \<open>2*x**3/3\<close>, \<open>x**2/2\<close>, \<open>5*x\<close> and
  \<open>x**3/3 - cos(x)\<close>. Integrating \<open>x\<close> from 0.0 to 1.0 gives the float sympy prints
  as \<open>0.500000000000000\<close>, in an f-string as well. The callable made from the constant
  \<open>5\<close> returns the integer itself, on which \<open>len\<close> raises; every other callable
  returns 400 values. Outside the inputs listed the table raises, as it does for a definite
  integral with a nan limit: that stands for a failing library call, and the texts of the
  exceptions are the table's.
\<close>

datatype sample_float = Zero | One | NaN

datatype sample_values = Scalar | Samples nat

definition sample_png :: "byte list" where
  "sample_png = png_signature @ [0x00, 0x00, 0x00, 0x0D, 0x49, 0x48, 0x44, 0x52]"

definition sample_library ::
  "(pystr, sample_float, pystr, sample_values, pystr \<times> pystr) library" where
  "sample_library =
     \<lparr>sympify = (\<lambda>s. if s = lit ''x+*'' then Inl (lit ''SympifyError'') else Inr s),
      integrate = (\<lambda>f.
        if f = lit ''x**2'' then Inr (lit ''x**3/3'')
        else if f = lit ''2*x**2'' then Inr (lit ''2*x**3/3'')
        else if f = lit ''x'' then Inr (lit ''x**2/2'')
        else if f = lit ''5'' then Inr (lit ''5*x'')
        else if f = lit ''sin(x)+x**2'' then Inr (lit ''x**3/3 - cos(x)'')
        else Inl (lit ''NotImplementedError'')),
      integrate_between = (\<lambda>f a b.
        if a = NaN \<or> b = NaN then Inl (lit ''Invalid NaN comparison'')
        else if f = lit ''x'' \<and> a = Zero \<and> b = One then Inr (lit ''0.500000000000000'')
        else Inl (lit ''NotImplementedError'')),
      str_expr = (\<lambda>f. f),
      format_expr = (\<lambda>f. f),
      str_float = (\<lambda>a. case a of Zero \<Rightarrow> lit ''0.0'' | One \<Rightarrow> lit ''1.0''
                       | NaN \<Rightarrow> lit ''nan''),
      lambdify = (\<lambda>f. Inr f),
      call = (\<lambda>fn. if fn = lit ''5'' then Inr Scalar else Inr (Samples 400)),
      len = (\<lambda>v. case v of
                   Scalar \<Rightarrow>
                     Inl (lit ''object of type '' @ [39] @ lit ''int'' @ [39] @
                          lit '' has no len()'')
                 | Samples n \<Rightarrow> Inr n),
      plot = (\<lambda>ys zs original integral. Inr (original, integral)),
      savefig = (\<lambda>fig. (sample_png, None))\<rparr>"

section \<open>Facts about the string functions\<close>

lemma length_py_split: "length (py_split sep s) = Suc (count_list s sep)"
  by (induction s) (auto split: list.splits)

lemma contains_single: "contains [c] s \<longleftrightarrow> c \<in> set s"
  by (induction s) auto

lemma several_terms: "Suc 0 < length (py_split sep s) \<longleftrightarrow> contains [sep] s"
proof -
  have "0 < count_list s sep \<longleftrightarrow> count_list s sep \<noteq> 0"
    by simp
  then show ?thesis
    by (simp add: length_py_split contains_single count_list_0_iff)
qed

text \<open>
  The two passes of \<open>latex\<close> amount to the one-pass rewriting: pairs of stars first, from
  the left, then the stars left over.
\<close>

lemma latex_spec_display: "latex s = spec_display s"
  by (induction s rule: spec_display.induct)
     (auto simp: latex_def py_replace_def lit.simps plain_def)

text \<open>\<open>contains\<close> is the substring relation; the terms of a split hold no separator.\<close>

lemma contains_iff: "contains sub s \<longleftrightarrow> (\<exists>a b. s = a @ sub @ b)"
proof (induction s)
  case Nil
  then show ?case by auto
next
  case (Cons c cs)
  show ?case
  proof
    assume "contains sub (c # cs)"
    then consider "prefix sub (c # cs)" | "contains sub cs"
      by auto
    then show "\<exists>a b. c # cs = a @ sub @ b"
    proof cases
      case 1
      then obtain b where "c # cs = sub @ b"
        by (auto simp: prefix_def)
      then have "c # cs = [] @ sub @ b"
        by simp
      then show ?thesis
        by blast
    next
      case 2
      with Cons.IH obtain a b where "cs = a @ sub @ b"
        by auto
      then have "c # cs = (c # a) @ sub @ b"
        by simp
      then show ?thesis
        by blast
    qed
  next
    assume "\<exists>a b. c # cs = a @ sub @ b"
    then obtain a b where ab: "c # cs = a @ sub @ b"
      by blast
    show "contains sub (c # cs)"
    proof (cases a)
      case Nil
      with ab have "prefix sub (c # cs)"
        by (simp add: prefix_def)
      then show ?thesis
        by simp
    next
      case (Cons x a')
      with ab have "cs = a' @ sub @ b"
        by simp
      with Cons.IH have "contains sub cs"
        by blast
      then show ?thesis
        by simp
    qed
  qed
qed

lemma py_split_no_separator: "t \<in> set (py_split sep s) \<Longrightarrow> sep \<notin> set t"
  by (induction s arbitrary: t) (auto split: if_splits list.splits)

lemma py_split_concat: "concat (py_split sep s) = filter (\<lambda>c. c \<noteq> sep) s"
  by (induction s) (auto split: list.splits)

text \<open>A text without the pattern is left as it is by \<open>replace\<close>.\<close>

lemma replace_from_absent: "\<not> contains old s \<Longrightarrow> replace_from old new s = s"
  by (induction s) auto

section \<open>The handler, path by path\<close>

text \<open>When every library call succeeds the handler returns the result object and stores the graph.\<close>

lemma calculate_integral_success:
  assumes "sympify L (parser_input (expression request)) = Inr f"
    and "integrate L f = Inr F"
    and "definite_stage L request f
           (explanation_steps (expression request) (str_expr L F)) = Inr (d, steps)"
    and "lambdify L f = Inr fn" and "lambdify L F = Inr Fn"
    and "evaluate_stage L fn Fn = Inr (ys, zs)"
    and "plot L ys zs (lit ''Original: '' @ legend (expression request))
           (lit ''Integral: '' @ legend (str_expr L F)) = Inr fig"
    and "savefig L fig = (png, None)"
  shows "calculate_integral L request graph_buffer =
           (Returned
              [(''indefinite_integral'', JStr (latex (str_expr L F))),
               (''defined_integral'',
                  JStr (case d of Some v \<Rightarrow> str_expr L v
                        | None \<Rightarrow> lit ''No se proporcionaron l~imites'')),
               (''explanation'', JList steps)],
            Some \<lparr>content = png, cursor = 0\<rparr>)"
  using assms by (simp add: calculate_integral_def store_and_return_def)

text \<open>A returned dictionary without the key \<open>error\<close> is the result object of line 179.\<close>

lemma result_body:
  assumes "calculate_integral L request graph_buffer = (Returned body, graph_buffer')"
    and "map_of body ''error'' = None"
  shows "\<exists>f F d steps.
           sympify L (parser_input (expression request)) = Inr f \<and>
           integrate L f = Inr F \<and>
           definite_stage L request f
             (explanation_steps (expression request) (str_expr L F)) = Inr (d, steps) \<and>
           body = [(''indefinite_integral'', JStr (latex (str_expr L F))),
                   (''defined_integral'',
                      JStr (case d of Some v \<Rightarrow> str_expr L v
                            | None \<Rightarrow> lit ''No se proporcionaron l~imites'')),
                   (''explanation'', JList steps)]"
  using assms
  by (auto simp: calculate_integral_def store_and_return_def definite_stage_def
           split: sum.splits prod.splits option.splits)

lemma error_objects_keep_graph:
  assumes "calculate_integral L request graph_buffer = (out, graph_buffer')"
    and "error_object out"
  shows "graph_buffer' = graph_buffer"
  using assms
  by (cases out)
     (auto simp: calculate_integral_def store_and_return_def
           split: sum.splits prod.splits option.splits)

lemma handle_all_errors:
  "list_all error_object (fst (handle_all L requests graph_buffer)) \<Longrightarrow>
   snd (handle_all L requests graph_buffer) = graph_buffer"
proof (induction requests arbitrary: graph_buffer)
  case Nil
  then show ?case by simp
next
  case (Cons request requests)
  obtain out g1 where c: "calculate_integral L request graph_buffer = (out, g1)"
    by (cases "calculate_integral L request graph_buffer")
  from Cons.prems c have "error_object out"
    and rest: "list_all error_object (fst (handle_all L requests g1))"
    by (auto split: prod.splits)
  with error_objects_keep_graph [OF c] have "g1 = graph_buffer"
    by simp
  moreover from Cons.IH [OF rest] have "snd (handle_all L requests g1) = g1" .
  ultimately show ?case
    using c by (auto split: prod.splits)
qed

text \<open>
  The steps that leave the definite stage are the steps that entered it, followed by the two
  lines of step 4 when both limits were supplied and by nothing otherwise.
\<close>

lemma definite_stage_steps:
  assumes "definite_stage L request f steps0 = Inr (d, steps)"
  shows "\<exists>tail. steps = steps0 @ tail \<and>
           (lower_limit request = None \<or> upper_limit request = None \<longrightarrow> tail = []) \<and>
           (lower_limit request \<noteq> None \<and> upper_limit request \<noteq> None \<longrightarrow> length tail = 2)"
  using assms by (auto simp: definite_stage_def split: option.splits sum.splits)

text \<open>Whatever the buffer holds, a second \<open>get_graph\<close> in a row streams nothing.\<close>

lemma get_graph_again:
  "fst (get_graph (snd (get_graph (Some buffer)))) = StreamingResponse [] ''image/png''"
  by (simp add: get_graph_def)

section \<open>The example requests on the library table\<close>

lemma sample_fields:
  "str_expr sample_library f = f"
  "lambdify sample_library f = Inr f"
  "plot sample_library ys zs original integral = Inr (original, integral)"
  "savefig sample_library fig = (sample_png, None)"
  by (simp_all add: sample_library_def)

lemma parser_input_examples:
  "parser_input (lit ''x+*'') = lit ''x+*''"
  "parser_input (lit ''x**2'') = lit ''x**2''"
  "parser_input (lit ''2*x**2'') = lit ''2*x**2''"
  "parser_input (lit ''sin(x)+x**2'') = lit ''sin(x)+x**2''"
  "parser_input (lit ''x'') = lit ''x''"
  "parser_input (lit ''5'') = lit ''5''"
  by (simp_all add: parser_input_def py_replace_def plain_def lit.simps)

lemma sample_parse:
  "sympify sample_library (lit ''x+*'') = Inl (lit ''SympifyError'')"
  "sympify sample_library (lit ''x**2'') = Inr (lit ''x**2'')"
  "sympify sample_library (lit ''2*x**2'') = Inr (lit ''2*x**2'')"
  "sympify sample_library (lit ''sin(x)+x**2'') = Inr (lit ''sin(x)+x**2'')"
  "sympify sample_library (lit ''x'') = Inr (lit ''x'')"
  "sympify sample_library (lit ''5'') = Inr (lit ''5'')"
  by (simp_all add: sample_library_def plain_def lit.simps)

lemma sample_integrate:
  "integrate sample_library (lit ''x**2'') = Inr (lit ''x**3/3'')"
  "integrate sample_library (lit ''2*x**2'') = Inr (lit ''2*x**3/3'')"
  "integrate sample_library (lit ''sin(x)+x**2'') = Inr (lit ''x**3/3 - cos(x)'')"
  "integrate sample_library (lit ''x'') = Inr (lit ''x**2/2'')"
  "integrate sample_library (lit ''5'') = Inr (lit ''5*x'')"
  by (simp_all add: sample_library_def plain_def lit.simps)

lemma sample_integrate_between:
  "integrate_between sample_library (lit ''x'') Zero One = Inr (lit ''0.500000000000000'')"
  "integrate_between sample_library f NaN One = Inl (lit ''Invalid NaN comparison'')"
  by (simp_all add: sample_library_def)

lemma sample_evaluate:
  "evaluate_stage sample_library (lit ''x**2'') (lit ''x**3/3'') =
     Inr (Samples 400, Samples 400)"
  "evaluate_stage sample_library (lit ''2*x**2'') (lit ''2*x**3/3'') =
     Inr (Samples 400, Samples 400)"
  "evaluate_stage sample_library (lit ''sin(x)+x**2'') (lit ''x**3/3 - cos(x)'') =
     Inr (Samples 400, Samples 400)"
  "evaluate_stage sample_library (lit ''x'') (lit ''x**2/2'') =
     Inr (Samples 400, Samples 400)"
  by (simp_all add: evaluate_stage_def len_X_vals_def sample_library_def plain_def lit.simps)

lemma sample_call:
  "call sample_library (lit ''5'') = Inr Scalar"
  "call sample_library (lit ''5*x'') = Inr (Samples 400)"
  "len sample_library Scalar =
     Inl (lit ''object of type '' @ [39] @ lit ''int'' @ [39] @ lit '' has no len()'')"
  by (simp_all add: sample_library_def plain_def lit.simps)

lemma latex_examples:
  "latex (lit ''x**3/3'') = lit ''x^3/3''"
  "latex (lit ''x**2/2'') = lit ''x^2/2''"
  by (simp_all add: latex_def py_replace_def plain_def lit.simps)

lemma sample_unparseable:
  "calculate_integral sample_library
     \<lparr>expression = lit ''x+*'', lower_limit = None, upper_limit = None\<rparr> graph_buffer =
   (Returned [(''error'', JStr (lit ''Error en la expresi~on matem~atica proporcionada.''))],
    graph_buffer)"
  by (simp add: calculate_integral_def parser_input_examples sample_parse)

lemma sample_constant:
  "calculate_integral sample_library
     \<lparr>expression = lit ''5'', lower_limit = None, upper_limit = None\<rparr> graph_buffer =
   (Returned
      [(''error'',
        JStr (lit ''Error al evaluar la funci~on: '' @ lit ''object of type '' @ [39] @
              lit ''int'' @ [39] @ lit '' has no len()''))],
    graph_buffer)"
  by (simp add: calculate_integral_def parser_input_examples sample_parse sample_integrate
        definite_stage_def sample_fields evaluate_stage_def sample_call)


text \<open>
  The requests without limits that succeed on the table. The steps of the response are left
  open here.
\<close>

lemma sample_results:
  "\<exists>indefinite steps.
     calculate_integral sample_library
       \<lparr>expression = lit ''x**2'', lower_limit = None, upper_limit = None\<rparr> graph_buffer =
     (Returned
        [(''indefinite_integral'', JStr indefinite),
         (''defined_integral'', JStr (lit ''No se proporcionaron l~imites'')),
         (''explanation'', JList steps)],
      Some \<lparr>content = sample_png, cursor = 0\<rparr>)"
  "\<exists>indefinite steps.
     calculate_integral sample_library
       \<lparr>expression = lit ''2*x**2'', lower_limit = None, upper_limit = None\<rparr> graph_buffer =
     (Returned
        [(''indefinite_integral'', JStr indefinite),
         (''defined_integral'', JStr (lit ''No se proporcionaron l~imites'')),
         (''explanation'', JList steps)],
      Some \<lparr>content = sample_png, cursor = 0\<rparr>)"
  "\<exists>indefinite steps.
     calculate_integral sample_library
       \<lparr>expression = lit ''sin(x)+x**2'', lower_limit = None, upper_limit = None\<rparr>
       graph_buffer =
     (Returned
        [(''indefinite_integral'', JStr indefinite),
         (''defined_integral'', JStr (lit ''No se proporcionaron l~imites'')),
         (''explanation'', JList steps)],
      Some \<lparr>content = sample_png, cursor = 0\<rparr>)"
  by (simp_all add: calculate_integral_def store_and_return_def parser_input_examples
        sample_parse sample_integrate definite_stage_def sample_fields sample_evaluate)

lemma sample_square:
  "calculate_integral sample_library
     \<lparr>expression = lit ''x**2'', lower_limit = None, upper_limit = None\<rparr> graph_buffer =
   (Returned
      [(''indefinite_integral'', JStr (lit ''x^3/3'')),
       (''defined_integral'', JStr (lit ''No se proporcionaron l~imites'')),
       (''explanation'', JList (explanation_steps (lit ''x**2'') (lit ''x**3/3'')))],
    Some \<lparr>content = sample_png, cursor = 0\<rparr>)"
  by (simp add: calculate_integral_def store_and_return_def parser_input_examples
        sample_parse sample_integrate definite_stage_def sample_fields sample_evaluate
        latex_examples)

lemma sample_linear:
  "\<exists>steps.
     calculate_integral sample_library
       \<lparr>expression = lit ''x'', lower_limit = Some Zero, upper_limit = Some One\<rparr> graph_buffer =
     (Returned
        [(''indefinite_integral'', JStr (lit ''x^2/2'')),
         (''defined_integral'', JStr (lit ''0.500000000000000'')),
         (''explanation'', JList steps)],
      Some \<lparr>content = sample_png, cursor = 0\<rparr>)"
  by (simp add: calculate_integral_def store_and_return_def parser_input_examples
        sample_parse sample_integrate sample_integrate_between definite_stage_def
        sample_fields sample_evaluate latex_examples)

section \<open>The explanation against the specification's wording\<close>

lemma rule_steps_spec: "rule_steps term = spec_rule_steps term"
  by (simp add: rule_steps_def spec_rule_steps_def spec_classify_def latex_spec_display
        plain_def accented_def lit.simps)

lemma explanation_steps_spec:
  "explanation_steps text integrated = spec_explanation text integrated"
proof -
  have plus: "lit ''+'' = [of_char CHR ''+'']" "plain CHR ''+'' = of_char CHR ''+''"
    by (simp_all add: plain_def lit.simps)
  show ?thesis
    by (simp add: explanation_steps_def spec_explanation_def decompose_steps_def terms_of_def
          several_terms rule_steps_spec latex_spec_display plus)
qed

lemma example_terms: "terms_of (lit ''sin(x)+x**2'') = [lit ''sin(x)'', lit ''x**2'']"
  by (simp add: terms_of_def plain_def lit.simps)

lemma example_strip:
  "strip (lit ''sin(x)'') = lit ''sin(x)''"
  "strip (lit ''x**2'') = lit ''x**2''"
  by (simp_all add: strip_def isspace_def plain_def lit.simps)

lemma example_latex:
  "latex (lit ''sin(x)+x**2'') = lit ''sin(x)+x^2''"
  "latex (lit ''sin(x)'') = lit ''sin(x)''"
  "latex (lit ''x**2'') = lit ''x^2''"
  by (simp_all add: latex_def py_replace_def plain_def lit.simps)

lemma example_rule_steps:
  "rule_steps (lit ''sin(x)'') =
     [lit ''2. Aplicar la regla de integraci~on trigonom~etrica a |( sin(x) |):'',
      lit ''   |( |int |sin(x) |, dx = -|cos(x) |)'']"
  "rule_steps (lit ''x**2'') =
     [lit ''2. Aplicar la regla de integraci~on de potencias a |( x^2 |):'',
      lit ''   |( |int x^n |, dx = |frac{x^{n+1}}{n+1} |)'']"
  by (simp_all add: rule_steps_def latex_def py_replace_def plain_def accented_def lit.simps)

lemma example_explanation:
  "explanation_steps (lit ''sin(x)+x**2'') integrated =
     [lit ''Problema: |( |int sin(x)+x^2 |, dx |)'',
      lit ''1. Descomponer la integral en t~erminos:'',
      lit ''   |( |int sin(x) |, dx |)'',
      lit ''   |( |int x^2 |, dx |)'',
      lit ''2. Aplicar la regla de integraci~on trigonom~etrica a |( sin(x) |):'',
      lit ''   |( |int |sin(x) |, dx = -|cos(x) |)'',
      lit ''2. Aplicar la regla de integraci~on de potencias a |( x^2 |):'',
      lit ''   |( |int x^n |, dx = |frac{x^{n+1}}{n+1} |)'',
      lit ''3. Sumar los resultados parciales:'',
      lit ''   Resultado final: |( '' @ latex integrated @ lit '' + C |)'']"
proof -
  have lines:
    "lit ''Problema: |( |int '' @ lit ''sin(x)+x^2'' @ lit '' |, dx |)'' =
       lit ''Problema: |( |int sin(x)+x^2 |, dx |)''"
    "lit ''   |( |int '' @ lit ''sin(x)'' @ lit '' |, dx |)'' = lit ''   |( |int sin(x) |, dx |)''"
    "lit ''   |( |int '' @ lit ''x^2'' @ lit '' |, dx |)'' = lit ''   |( |int x^2 |, dx |)''"
    by (simp_all add: plain_def lit.simps)
  show ?thesis
    by (simp add: explanation_steps_def decompose_steps_def example_terms example_strip
          example_latex example_rule_steps lines)
qed

section \<open>The claims\<close>

text \<open>
  C1. A call of \<open>calculate_integral\<close> that answers with an error object (parse failure,
  failure of the definite integral, failure of the numeric evaluation or of the length
  check) leaves the process-wide graph as it was: the value of \<open>graph_buffer\<close> after the
  call is its value before the call, a stored graph or \<open>None\<close>.
\<close>

theorem error_response_keeps_graph:
  assumes "calculate_integral L request graph_buffer = (Returned body, graph_buffer')"
    and "map_of body ''error'' \<noteq> None"
  shows "graph_buffer' = graph_buffer"
  using assms
  by (auto simp: calculate_integral_def store_and_return_def
           split: sum.splits prod.splits option.splits)

theorem error_response_keeps_graph_witness:
  "snd (calculate_integral sample_library
          \<lparr>expression = lit ''5'', lower_limit = None, upper_limit = None\<rparr>
          (Some \<lparr>content = sample_png, cursor = 0\<rparr>)) =
   Some \<lparr>content = sample_png, cursor = 0\<rparr>"
proof -
  define after where
    "after = snd (calculate_integral sample_library
                    \<lparr>expression = lit ''5'', lower_limit = None, upper_limit = None\<rparr>
                    (Some \<lparr>content = sample_png, cursor = 0\<rparr>))"
  have run: "calculate_integral sample_library
               \<lparr>expression = lit ''5'', lower_limit = None, upper_limit = None\<rparr>
               (Some \<lparr>content = sample_png, cursor = 0\<rparr>) =
             (Returned
                [(''error'',
                  JStr (lit ''Error al evaluar la funci~on: '' @ lit ''object of type '' @
                        [39] @ lit ''int'' @ [39] @ lit '' has no len()''))],
              after)"
    unfolding after_def by (simp add: sample_constant)
  have "after = Some \<lparr>content = sample_png, cursor = 0\<rparr>"
    by (rule error_response_keeps_graph [OF run]) simp
  then show ?thesis
    by (simp only: after_def)
qed

text \<open>
  C2. The claim: before parsing, every \<open>e**\<close> of the expression becomes an explicit call
  of the exponential function, so that \<open>e**x\<close> is parsed as \<open>exp(x)\<close>. Line 59 replaces
  the three characters \<open>e**\<close> by the three characters \<open>exp\<close> and adds no parentheses:
  the text handed to the parser for \<open>e**x\<close> is the single name \<open>expx\<close>, without any
  call. Only an exponent that is already parenthesised, as in \<open>e**(x)\<close>, becomes a call.
\<close>

theorem exponent_rewrite_makes_no_call:
  "parser_input (lit ''e**x'') = lit ''expx'' \<and>
   \<not> contains (lit ''('') (parser_input (lit ''e**x'')) \<and>
   parser_input (lit ''e**(x)'') = lit ''exp(x)''"
  by (simp add: parser_input_def py_replace_def plain_def lit.simps)

text \<open>
  C3. When the expression does not parse, \<open>calculate_integral\<close> returns the dictionary
  whose only entry is \<open>error\<close> with the fixed message
  \<open>Error en la expresi~on matem~atica proporcionada.\<close>; there are no explanation steps
  and no integral fields in it.
\<close>

theorem parse_failure_response:
  assumes "sympify L (parser_input (expression request)) = Inl e"
  shows "calculate_integral L request graph_buffer =
           (Returned
              [(''error'', JStr (lit ''Error en la expresi~on matem~atica proporcionada.''))],
            graph_buffer)"
  using assms by (simp add: calculate_integral_def)

theorem parse_failure_response_witness:
  "calculate_integral sample_library
     \<lparr>expression = lit ''x+*'', lower_limit = Some Zero, upper_limit = Some One\<rparr> None =
   (Returned
      [(''error'', JStr (lit ''Error en la expresi~on matem~atica proporcionada.''))],
    None)"
  by (rule parse_failure_response [where e = "lit ''SympifyError''"])
     (simp add: parser_input_examples sample_parse)

text \<open>
  C4. The claim: for every parseable expression the field \<open>indefinite_integral\<close> is the
  printed antiderivative of the parsed expression, with every \<open>**\<close> rewritten to \<open>^\<close>
  and every remaining \<open>*\<close> to a backslash and a comma. A parseable expression need not
  get a result object, as the constant \<open>5\<close> shows further down; what holds is: in every
  result object the field is the printed antiderivative rewritten in that way. On the table,
  \<open>x**2\<close> gives \<open>x^3/3\<close> and \<open>2*x**2\<close> gives \<open>2\<close>, backslash, comma, \<open>x^3/3\<close>.
\<close>

theorem indefinite_integral_field:
  assumes "calculate_integral L request graph_buffer = (Returned body, graph_buffer')"
    and "map_of body ''error'' = None"
  shows "\<exists>f F. sympify L (parser_input (expression request)) = Inr f \<and>
           integrate L f = Inr F \<and>
           map_of body ''indefinite_integral'' = Some (JStr (spec_display (str_expr L F)))"
proof -
  from result_body [OF assms] obtain f F d steps where
    "sympify L (parser_input (expression request)) = Inr f"
    and "integrate L f = Inr F"
    and "body = [(''indefinite_integral'', JStr (latex (str_expr L F))),
                 (''defined_integral'',
                    JStr (case d of Some v \<Rightarrow> str_expr L v
                          | None \<Rightarrow> lit ''No se proporcionaron l~imites'')),
                 (''explanation'', JList steps)]"
    by blast
  then show ?thesis
    by (simp add: latex_spec_display)
qed

theorem indefinite_integral_field_witness:
  "(\<exists>body graph_buffer'.
      calculate_integral sample_library
        \<lparr>expression = lit ''x**2'', lower_limit = None, upper_limit = None\<rparr> None =
      (Returned body, graph_buffer') \<and>
      map_of body ''error'' = None \<and>
      map_of body ''indefinite_integral'' = Some (JStr (lit ''x^3/3''))) \<and>
   (\<exists>body graph_buffer'.
      calculate_integral sample_library
        \<lparr>expression = lit ''2*x**2'', lower_limit = None, upper_limit = None\<rparr> None =
      (Returned body, graph_buffer') \<and>
      map_of body ''error'' = None \<and>
      map_of body ''indefinite_integral'' = Some (JStr (lit ''2|,x^3/3'')))"
proof
  let ?request = "\<lparr>expression = lit ''x**2'', lower_limit = None, upper_limit = None\<rparr>
                    :: sample_float IntegralRequest"
  from sample_results(1) [of None] obtain body graph_buffer' where
    run: "calculate_integral sample_library ?request None = (Returned body, graph_buffer')"
    and no_error: "map_of body ''error'' = None"
    by auto
  from indefinite_integral_field [OF run no_error] obtain f F where
    "sympify sample_library (parser_input (expression ?request)) = Inr f"
    and "integrate sample_library f = Inr F"
    and field: "map_of body ''indefinite_integral'' =
                  Some (JStr (spec_display (str_expr sample_library F)))"
    by blast
  then have "F = lit ''x**3/3''"
    by (auto simp: parser_input_examples sample_parse sample_integrate)
  moreover have "spec_display (lit ''x**3/3'') = lit ''x^3/3''"
    by (simp add: lit.simps plain_def)
  ultimately have "map_of body ''indefinite_integral'' = Some (JStr (lit ''x^3/3''))"
    using field by (simp add: sample_fields)
  with run no_error show "\<exists>body graph_buffer'.
      calculate_integral sample_library ?request None = (Returned body, graph_buffer') \<and>
      map_of body ''error'' = None \<and>
      map_of body ''indefinite_integral'' = Some (JStr (lit ''x^3/3''))"
    by blast
next
  let ?request = "\<lparr>expression = lit ''2*x**2'', lower_limit = None, upper_limit = None\<rparr>
                    :: sample_float IntegralRequest"
  from sample_results(2) [of None] obtain body graph_buffer' where
    run: "calculate_integral sample_library ?request None = (Returned body, graph_buffer')"
    and no_error: "map_of body ''error'' = None"
    by auto
  from indefinite_integral_field [OF run no_error] obtain f F where
    "sympify sample_library (parser_input (expression ?request)) = Inr f"
    and "integrate sample_library f = Inr F"
    and field: "map_of body ''indefinite_integral'' =
                  Some (JStr (spec_display (str_expr sample_library F)))"
    by blast
  then have "F = lit ''2*x**3/3''"
    by (auto simp: parser_input_examples sample_parse sample_integrate)
  moreover have "spec_display (lit ''2*x**3/3'') = lit ''2|,x^3/3''"
    by (simp add: lit.simps plain_def)
  ultimately have "map_of body ''indefinite_integral'' = Some (JStr (lit ''2|,x^3/3''))"
    using field by (simp add: sample_fields)
  with run no_error show "\<exists>body graph_buffer'.
      calculate_integral sample_library ?request None = (Returned body, graph_buffer') \<and>
      map_of body ''error'' = None \<and>
      map_of body ''indefinite_integral'' = Some (JStr (lit ''2|,x^3/3''))"
    by blast
qed

text \<open>
  The constant \<open>5\<close> parses, yet the response is the error object of line 158: it has no
  field \<open>indefinite_integral\<close>.
\<close>

theorem indefinite_integral_field_counterexample:
  "sympify sample_library (parser_input (lit ''5'')) = Inr (lit ''5'') \<and>
   calculate_integral sample_library
     \<lparr>expression = lit ''5'', lower_limit = None, upper_limit = None\<rparr> None =
   (Returned
      [(''error'',
        JStr (lit ''Error al evaluar la funci~on: '' @ lit ''object of type '' @ [39] @
              lit ''int'' @ [39] @ lit '' has no len()''))],
    None) \<and>
   map_of
     [(''error'',
       JStr (lit ''Error al evaluar la funci~on: '' @ lit ''object of type '' @ [39] @
             lit ''int'' @ [39] @ lit '' has no len()''))]
     ''indefinite_integral'' = None"
  by (simp add: parser_input_examples sample_parse sample_constant)

text \<open>
  C5. In every result object the field \<open>explanation\<close> starts with the steps the
  specification describes: the problem statement; the split of the raw text on \<open>+\<close>,
  with a "decompose" step listing the terms when there are several and a "solve directly"
  step otherwise; for each term the caption and the canned fact of the first rule that
  matches, in the order sin, cos, tan, log or ln, exp or e^, x**, x, constant; the sum of the
  partial results. Nothing follows them when a limit is missing, two lines when both are
  given. For \<open>sin(x)+x**2\<close> the field holds the decompose step with its two terms, the
  two trigonometric steps for \<open>sin(x)\<close> and the two power-rule steps for \<open>x**2\<close>.
\<close>

theorem explanation_follows_classification:
  assumes "calculate_integral L request graph_buffer = (Returned body, graph_buffer')"
    and "map_of body ''error'' = None"
  shows "\<exists>f F tail.
           sympify L (parser_input (expression request)) = Inr f \<and>
           integrate L f = Inr F \<and>
           map_of body ''explanation'' =
             Some (JList (spec_explanation (expression request) (str_expr L F) @ tail)) \<and>
           (lower_limit request = None \<or> upper_limit request = None \<longrightarrow> tail = []) \<and>
           (lower_limit request \<noteq> None \<and> upper_limit request \<noteq> None \<longrightarrow>
              length tail = 2)"
proof -
  from result_body [OF assms] obtain f F d steps where
    parsed: "sympify L (parser_input (expression request)) = Inr f"
    and integrated: "integrate L f = Inr F"
    and stage: "definite_stage L request f
                  (explanation_steps (expression request) (str_expr L F)) = Inr (d, steps)"
    and body: "body = [(''indefinite_integral'', JStr (latex (str_expr L F))),
                       (''defined_integral'',
                          JStr (case d of Some v \<Rightarrow> str_expr L v
                                | None \<Rightarrow> lit ''No se proporcionaron l~imites'')),
                       (''explanation'', JList steps)]"
    by (elim exE conjE)
  from definite_stage_steps [OF stage] obtain tail where
    steps: "steps = explanation_steps (expression request) (str_expr L F) @ tail"
    and missing: "lower_limit request = None \<or> upper_limit request = None \<longrightarrow> tail = []"
    and both: "lower_limit request \<noteq> None \<and> upper_limit request \<noteq> None \<longrightarrow>
                 length tail = 2"
    by (elim exE conjE)
  have "map_of body ''explanation'' = Some (JList steps)"
    by (simp add: body)
  then have field: "map_of body ''explanation'' =
      Some (JList (spec_explanation (expression request) (str_expr L F) @ tail))"
    by (simp only: steps explanation_steps_spec)
  from parsed integrated field missing both show ?thesis
    by (intro exI conjI) assumption+
qed

theorem explanation_follows_classification_witness:
  "\<exists>body graph_buffer'.
     calculate_integral sample_library
       \<lparr>expression = lit ''sin(x)+x**2'', lower_limit = None, upper_limit = None\<rparr> None =
     (Returned body, graph_buffer') \<and>
     map_of body ''explanation'' =
       Some (JList
         [lit ''Problema: |( |int sin(x)+x^2 |, dx |)'',
          lit ''1. Descomponer la integral en t~erminos:'',
          lit ''   |( |int sin(x) |, dx |)'',
          lit ''   |( |int x^2 |, dx |)'',
          lit ''2. Aplicar la regla de integraci~on trigonom~etrica a |( sin(x) |):'',
          lit ''   |( |int |sin(x) |, dx = -|cos(x) |)'',
          lit ''2. Aplicar la regla de integraci~on de potencias a |( x^2 |):'',
          lit ''   |( |int x^n |, dx = |frac{x^{n+1}}{n+1} |)'',
          lit ''3. Sumar los resultados parciales:'',
          lit ''   Resultado final: |( x^3/3 - cos(x) + C |)''])"
proof -
  let ?request =
    "\<lparr>expression = lit ''sin(x)+x**2'', lower_limit = None, upper_limit = None\<rparr>
       :: sample_float IntegralRequest"
  from sample_results(3) [of None] obtain body graph_buffer' where
    run: "calculate_integral sample_library ?request None = (Returned body, graph_buffer')"
    and no_error: "map_of body ''error'' = None"
    by auto
  from explanation_follows_classification [OF run no_error] obtain f F tail where
    "sympify sample_library (parser_input (expression ?request)) = Inr f"
    and "integrate sample_library f = Inr F"
    and field: "map_of body ''explanation'' =
                  Some (JList (spec_explanation (expression ?request)
                                 (str_expr sample_library F) @ tail))"
    and missing: "lower_limit ?request = None \<or> upper_limit ?request = None \<longrightarrow>
                    tail = []"
    and "lower_limit ?request \<noteq> None \<and> upper_limit ?request \<noteq> None \<longrightarrow>
           length tail = 2"
    by (elim exE conjE)
  then have "F = lit ''x**3/3 - cos(x)''" and "tail = []"
    by (auto simp: parser_input_examples sample_parse sample_integrate)
  with field have "map_of body ''explanation'' =
      Some (JList (explanation_steps (lit ''sin(x)+x**2'') (lit ''x**3/3 - cos(x)'')))"
    by (simp add: sample_fields explanation_steps_spec)
  moreover have "lit ''   Resultado final: |( '' @ latex (lit ''x**3/3 - cos(x)'') @ lit '' + C |)'' =
      lit ''   Resultado final: |( x^3/3 - cos(x) + C |)''"
    by (simp add: latex_def py_replace_def plain_def lit.simps)
  ultimately have "map_of body ''explanation'' =
       Some (JList
         [lit ''Problema: |( |int sin(x)+x^2 |, dx |)'',
          lit ''1. Descomponer la integral en t~erminos:'',
          lit ''   |( |int sin(x) |, dx |)'',
          lit ''   |( |int x^2 |, dx |)'',
          lit ''2. Aplicar la regla de integraci~on trigonom~etrica a |( sin(x) |):'',
          lit ''   |( |int |sin(x) |, dx = -|cos(x) |)'',
          lit ''2. Aplicar la regla de integraci~on de potencias a |( x^2 |):'',
          lit ''   |( |int x^n |, dx = |frac{x^{n+1}}{n+1} |)'',
          lit ''3. Sumar los resultados parciales:'',
          lit ''   Resultado final: |( x^3/3 - cos(x) + C |)''])"
    by (simp add: example_explanation)
  with run show ?thesis
    by blast
qed

text \<open>
  C6. In every result object: when both limits were supplied, \<open>defined_integral\<close> is the
  printed value of the definite integral of the parsed expression between them (for \<open>x\<close>
  between 0 and 1, the one half that the library computes); when a limit is missing, it is
  the literal string \<open>No se proporcionaron l~imites\<close>.
\<close>

theorem defined_integral_field:
  assumes "calculate_integral L request graph_buffer = (Returned body, graph_buffer')"
    and "map_of body ''error'' = None"
    and "sympify L (parser_input (expression request)) = Inr f"
  shows "(lower_limit request = Some a \<and> upper_limit request = Some b \<longrightarrow>
            (\<exists>v. integrate_between L f a b = Inr v \<and>
                 map_of body ''defined_integral'' = Some (JStr (str_expr L v)))) \<and>
         (lower_limit request = None \<or> upper_limit request = None \<longrightarrow>
            map_of body ''defined_integral'' =
              Some (JStr (lit ''No se proporcionaron l~imites'')))"
  using assms
  by (auto simp: calculate_integral_def store_and_return_def definite_stage_def
           split: sum.splits prod.splits option.splits)

theorem defined_integral_field_witness:
  "(\<exists>body graph_buffer'.
      calculate_integral sample_library
        \<lparr>expression = lit ''x'', lower_limit = Some Zero, upper_limit = Some One\<rparr> None =
      (Returned body, graph_buffer') \<and>
      map_of body ''defined_integral'' = Some (JStr (lit ''0.500000000000000''))) \<and>
   (\<exists>body graph_buffer'.
      calculate_integral sample_library
        \<lparr>expression = lit ''x**2'', lower_limit = None, upper_limit = None\<rparr> None =
      (Returned body, graph_buffer') \<and>
      map_of body ''defined_integral'' = Some (JStr (lit ''No se proporcionaron l~imites'')))"
proof
  let ?request = "\<lparr>expression = lit ''x'', lower_limit = Some Zero, upper_limit = Some One\<rparr>
                    :: sample_float IntegralRequest"
  from sample_linear [of None] obtain body graph_buffer' where
    run: "calculate_integral sample_library ?request None = (Returned body, graph_buffer')"
    and no_error: "map_of body ''error'' = None"
    by auto
  have parsed: "sympify sample_library (parser_input (expression ?request)) = Inr (lit ''x'')"
    by (simp add: parser_input_examples sample_parse)
  from defined_integral_field [OF run no_error parsed, of Zero One] obtain v where
    "integrate_between sample_library (lit ''x'') Zero One = Inr v"
    and "map_of body ''defined_integral'' = Some (JStr (str_expr sample_library v))"
    by auto
  then have "map_of body ''defined_integral'' = Some (JStr (lit ''0.500000000000000''))"
    by (auto simp: sample_integrate_between sample_fields)
  with run show "\<exists>body graph_buffer'.
      calculate_integral sample_library ?request None = (Returned body, graph_buffer') \<and>
      map_of body ''defined_integral'' = Some (JStr (lit ''0.500000000000000''))"
    by blast
next
  let ?request = "\<lparr>expression = lit ''x**2'', lower_limit = None, upper_limit = None\<rparr>
                    :: sample_float IntegralRequest"
  obtain body graph_buffer' where
    run: "calculate_integral sample_library ?request None = (Returned body, graph_buffer')"
    and no_error: "map_of body ''error'' = None"
    by (simp add: sample_square)
  have parsed: "sympify sample_library (parser_input (expression ?request)) = Inr (lit ''x**2'')"
    by (simp add: parser_input_examples sample_parse)
  from defined_integral_field [OF run no_error parsed]
  have "map_of body ''defined_integral'' = Some (JStr (lit ''No se proporcionaron l~imites''))"
    by simp
  with run show "\<exists>body graph_buffer'.
      calculate_integral sample_library ?request None = (Returned body, graph_buffer') \<and>
      map_of body ''defined_integral'' = Some (JStr (lit ''No se proporcionaron l~imites''))"
    by blast
qed

text \<open>
  C7. When both limits are supplied and the computation of the definite integral raises,
  the handler returns at once the dictionary whose only entry is \<open>error\<close>, with the
  message \<open>Error al calcular la integral definida: \<close> followed by the text of the
  exception; the steps computed so far are not in the response.
\<close>

theorem definite_failure_response:
  assumes "lower_limit request = Some a" and "upper_limit request = Some b"
    and "sympify L (parser_input (expression request)) = Inr f"
    and "integrate L f = Inr F"
    and "integrate_between L f a b = Inl e"
  shows "calculate_integral L request graph_buffer =
           (Returned
              [(''error'', JStr (lit ''Error al calcular la integral definida: '' @ e))],
            graph_buffer)"
  using assms by (simp add: calculate_integral_def definite_stage_def)

theorem definite_failure_response_witness:
  "calculate_integral sample_library
     \<lparr>expression = lit ''x'', lower_limit = Some NaN, upper_limit = Some One\<rparr> None =
   (Returned
      [(''error'',
        JStr (lit ''Error al calcular la integral definida: '' @
              lit ''Invalid NaN comparison''))],
    None)"
  by (rule definite_failure_response
        [where a = NaN and b = One and f = "lit ''x''" and F = "lit ''x**2/2''"])
     (simp_all add: parser_input_examples sample_parse sample_integrate
        sample_integrate_between)

text \<open>
  C8. As long as no graph has been stored, \<open>get_graph\<close> answers with the error object
  \<open>No hay gr~afica generada.\<close>: at process start, and after any number of integration
  calls that all answered with an error object.
\<close>

theorem no_graph_before_success:
  assumes "handle_all L requests None = (outs, graph_buffer)"
    and "list_all error_object outs"
  shows "get_graph graph_buffer =
           (JSONResponse [(''error'', JStr (lit ''No hay gr~afica generada.''))], None)"
  using handle_all_errors [of L requests None] assms by (simp add: get_graph_def)

theorem no_graph_before_success_witness:
  "get_graph
     (snd (handle_all sample_library
             [\<lparr>expression = lit ''x+*'', lower_limit = None, upper_limit = None\<rparr>,
              \<lparr>expression = lit ''5'', lower_limit = None, upper_limit = None\<rparr>] None)) =
   (JSONResponse [(''error'', JStr (lit ''No hay gr~afica generada.''))], None)"
proof (rule no_graph_before_success)
  show "handle_all sample_library
          [\<lparr>expression = lit ''x+*'', lower_limit = None, upper_limit = None\<rparr>,
           \<lparr>expression = lit ''5'', lower_limit = None, upper_limit = None\<rparr>] None =
        (fst (handle_all sample_library
                [\<lparr>expression = lit ''x+*'', lower_limit = None, upper_limit = None\<rparr>,
                 \<lparr>expression = lit ''5'', lower_limit = None, upper_limit = None\<rparr>] None),
         snd (handle_all sample_library
                [\<lparr>expression = lit ''x+*'', lower_limit = None, upper_limit = None\<rparr>,
                 \<lparr>expression = lit ''5'', lower_limit = None, upper_limit = None\<rparr>] None))"
    by simp
  show "list_all error_object
          (fst (handle_all sample_library
                  [\<lparr>expression = lit ''x+*'', lower_limit = None, upper_limit = None\<rparr>,
                   \<lparr>expression = lit ''5'', lower_limit = None, upper_limit = None\<rparr>] None))"
    by (simp add: sample_unparseable sample_constant)
qed

text \<open>
  C9. The claim: whenever a graph is stored, also on a repeated call with no integration in
  between, the cursor is at the start of the buffer when streaming begins, so the body
  starts with the PNG signature. The cursor is reset only by \<open>calculate_integral\<close>
  (line 175); \<open>get_graph\<close> streams the shared buffer from wherever its cursor is and
  leaves it at the end. After one successful integration the first call streams the whole
  image; the second call streams no byte at all.
\<close>

theorem second_get_graph_streams_nothing:
  "fst (get_graph
          (snd (calculate_integral sample_library
                  \<lparr>expression = lit ''x**2'', lower_limit = None, upper_limit = None\<rparr>
                  None))) =
     StreamingResponse sample_png ''image/png'' \<and>
   prefix png_signature sample_png \<and>
   fst (get_graph (snd (get_graph
          (snd (calculate_integral sample_library
                  \<lparr>expression = lit ''x**2'', lower_limit = None, upper_limit = None\<rparr>
                  None))))) =
     StreamingResponse [] ''image/png'' \<and>
   \<not> prefix png_signature []"
  by (simp add: sample_square get_graph_def sample_png_def png_signature_def)





end
